theory Spec2Isabelle
  imports Complex_Main "HOL-Library.AList" "HOL-Library.Sublist"
begin

section \<open>Python values and errors\<close>

text \<open>
  Source text and bytecode are Python \<open>str\<close> values. They are modelled as \<open>string\<close>, a
  list of 8-bit characters read as the code points 0 to 255; \<open>len\<close> is \<open>length\<close>. A feature
  value is a Python \<open>int\<close> (a pattern count) or a \<open>float\<close> (a ratio). A float is modelled by
  the rational number it stands for: the quotient of two counts is kept exact, where Python
  rounds it to the nearest double. The comparisons the detector makes on such a quotient
  (\<open>> 2\<close>, \<open>< 0.5\<close>, \<open>\<ge> 0\<close>) have the same outcome on the rounded value for counts below
  \<open>2^52\<close>, since 2, 0.5 and 0 are doubles and rounding is monotone.
\<close>

datatype pynum = PInt int | PFloat rat

fun num_val :: "pynum \<Rightarrow> rat" where
  "num_val (PInt i) = of_int i"
| "num_val (PFloat q) = q"

datatype error =
    KeyError string
  | ZeroDivisionError
  | IndexError
  | ValueError
  | NotFittedError

definition and_then :: "error + 'a \<Rightarrow> ('a \<Rightarrow> error + 'b) \<Rightarrow> error + 'b" where
  "and_then r f = (case r of Inl e \<Rightarrow> Inl e | Inr x \<Rightarrow> f x)"

text \<open>Python's true division \<open>a / b\<close> on ints: a float, or \<open>ZeroDivisionError\<close>.\<close>

definition truediv :: "int \<Rightarrow> int \<Rightarrow> error + rat" where
  "truediv a b = (if b = 0 then Inl ZeroDivisionError else Inr (of_int a / of_int b))"

section \<open>String operations of the source\<close>

definition startswith :: "string \<Rightarrow> string \<Rightarrow> bool" where
  "startswith p s = (take (length p) s = p)"

text \<open>\<open>sub in s\<close>.\<close>

fun contains :: "string \<Rightarrow> string \<Rightarrow> bool" where
  "contains sub [] = (sub = [])"
| "contains sub (c # cs) = (startswith sub (c # cs) \<or> contains sub cs)"

text \<open>\<open>s.split(sep)\<close> for a one-character separator.\<close>

fun split_on :: "char \<Rightarrow> string \<Rightarrow> string list" where
  "split_on sep [] = [[]]"
| "split_on sep (c # cs) =
     (if c = sep then [] # split_on sep cs
      else (case split_on sep cs of [] \<Rightarrow> [[c]] | p # ps \<Rightarrow> (c # p) # ps))"

text \<open>\<open>s.count(sub)\<close>: the non-overlapping occurrences, from the left.\<close>

function count_sub :: "string \<Rightarrow> string \<Rightarrow> nat" where
  "count_sub sub s =
     (if sub = [] then Suc (length s)
      else if s = [] then 0
      else if startswith sub s then Suc (count_sub sub (drop (length sub) s))
      else count_sub sub (tl s))"
  by pat_completeness auto
termination
  by (relation "measure (\<lambda>(sub, s). length s)") (auto simp: startswith_def)

declare count_sub.simps [simp del]

text \<open>
  \<open>s.replace(old, new)\<close>: every non-overlapping occurrence of \<open>old\<close>, from the left; an
  empty \<open>old\<close> matches before every character and at the end.
\<close>

function replace_from :: "string \<Rightarrow> string \<Rightarrow> string \<Rightarrow> string" where
  "replace_from old new s =
     (if old = [] then (case s of [] \<Rightarrow> new | c # cs \<Rightarrow> new @ c # replace_from old new cs)
      else if s = [] then []
      else if startswith old s then new @ replace_from old new (drop (length old) s)
      else hd s # replace_from old new (tl s))"
  by pat_completeness auto
termination
  by (relation "measure (\<lambda>(old, new, s). length s)") (auto simp: startswith_def)

declare replace_from.simps [simp del]

text \<open>
  \<open>s.upper()\<close> and \<open>s.lower()\<close> on code points below 256. The sharp s (223) becomes \<open>SS\<close>;
  the micro sign (181) and y with diaeresis (255) have capitals beyond code point 255, which
  occur in no opcode name, and are left as they are.
\<close>

definition upper_char :: "char \<Rightarrow> string" where
  "upper_char c =
     (let n = (of_char c :: nat) in
      if 97 \<le> n \<and> n \<le> 122 then [char_of (n - 32)]
      else if n = 223 then ''SS''
      else if 224 \<le> n \<and> n \<le> 254 \<and> n \<noteq> 247 then [char_of (n - 32)]
      else [c])"

definition upper :: "string \<Rightarrow> string" where
  "upper s = concat (map upper_char s)"

definition lower_char :: "char \<Rightarrow> char" where
  "lower_char c =
     (let n = (of_char c :: nat) in
      if 65 \<le> n \<and> n \<le> 90 then char_of (n + 32)
      else if 192 \<le> n \<and> n \<le> 222 \<and> n \<noteq> 215 then char_of (n + 32)
      else c)"

definition lower :: "string \<Rightarrow> string" where
  "lower s = map lower_char s"

section \<open>Regular expressions as the source uses them\<close>

text \<open>
  The patterns of the source are alternatives of sequences of: a literal character; a greedy
  repetition \<open>*\<close> or \<open>+\<close> of one of the classes \<open>\s\<close>, \<open>\w\<close> and \<open>[^c]\<close>, possibly inside the
  one capturing group; the word boundary \<open>\b\<close>; and \<open>^\<close> under \<open>re.MULTILINE\<close>. The matcher is
  Python's backtracking one: a repetition takes as many characters as it can and gives them
  back one by one while the rest of the sequence fails; the first alternative that matches
  wins. The classes are those of a \<open>str\<close> pattern (Unicode aware), on code points below 256.
\<close>

definition is_space :: "char \<Rightarrow> bool" where
  "is_space c =
     (let n = (of_char c :: nat) in (9 \<le> n \<and> n \<le> 13) \<or> (28 \<le> n \<and> n \<le> 32) \<or> n = 133 \<or> n = 160)"

definition is_word :: "char \<Rightarrow> bool" where
  "is_word c =
     (let n = (of_char c :: nat) in
      (48 \<le> n \<and> n \<le> 57) \<or> (65 \<le> n \<and> n \<le> 90) \<or> n = 95 \<or> (97 \<le> n \<and> n \<le> 122) \<or>
      n = 170 \<or> n = 178 \<or> n = 179 \<or> n = 181 \<or> n = 185 \<or> n = 186 \<or>
      (188 \<le> n \<and> n \<le> 190) \<or> (192 \<le> n \<and> n \<le> 214) \<or> (216 \<le> n \<and> n \<le> 246) \<or>
      (248 \<le> n \<and> n \<le> 255))"

datatype cls = Space | Word | NotCh char

fun in_cls :: "cls \<Rightarrow> char \<Rightarrow> bool" where
  "in_cls Space c = is_space c"
| "in_cls Word c = is_word c"
| "in_cls (NotCh x) c = (c \<noteq> x)"

text \<open>
  \<open>Rep k m\<close> is the class \<open>k\<close> repeated greedily at least \<open>m\<close> times (\<open>*\<close> is \<open>m = 0\<close>, \<open>+\<close> is
  \<open>m = 1\<close>); \<open>Cap k m\<close> is the same inside the capturing group.
\<close>

datatype item = Lit char | Rep cls nat | Cap cls nat | WordB | BOL

definition lits :: "string \<Rightarrow> item list" where
  "lits s = map Lit s"

text \<open>The character before the position reached after \<open>k\<close> characters of \<open>s\<close>.\<close>

definition prev_after :: "char option \<Rightarrow> string \<Rightarrow> nat \<Rightarrow> char option" where
  "prev_after prev s k = (if k = 0 \<or> s = [] then prev else Some (last (take k s)))"

definition word_opt :: "char option \<Rightarrow> bool" where
  "word_opt p = (case p of None \<Rightarrow> False | Some c \<Rightarrow> is_word c)"

text \<open>
  \<open>match_here its prev s\<close> matches the sequence \<open>its\<close> at the start of \<open>s\<close>, where \<open>prev\<close> is
  the character before it (\<open>None\<close> at the start of the text): the number of characters of
  the match and the text of the group. \<open>backoff\<close> is the greedy repetition, trying \<open>k\<close>
  characters, then \<open>k - 1\<close>, down to \<open>m\<close>.
\<close>

fun match_here :: "item list \<Rightarrow> char option \<Rightarrow> string \<Rightarrow> (nat \<times> string) option"
  and backoff :: "item list \<Rightarrow> bool \<Rightarrow> nat \<Rightarrow> nat \<Rightarrow> char option \<Rightarrow> string \<Rightarrow> (nat \<times> string) option"
where
  "match_here [] prev s = Some (0, [])"
| "match_here (Lit c # its) prev [] = None"
| "match_here (Lit c # its) prev (d # ds) =
     (if c = d then (case match_here its (Some d) ds of
                       None \<Rightarrow> None
                     | Some (n, g) \<Rightarrow> Some (Suc n, g))
      else None)"
| "match_here (Rep k m # its) prev s =
     (let n = length (takeWhile (in_cls k) s) in
      if n < m then None else backoff its False m n prev s)"
| "match_here (Cap k m # its) prev s =
     (let n = length (takeWhile (in_cls k) s) in
      if n < m then None else backoff its True m n prev s)"
| "match_here (WordB # its) prev s =
     (if word_opt prev \<noteq> word_opt (case s of [] \<Rightarrow> None | d # ds \<Rightarrow> Some d)
      then match_here its prev s else None)"
| "match_here (BOL # its) prev s =
     (if prev = None \<or> prev = Some CHR 0x0A then match_here its prev s else None)"
| "backoff its cap m 0 prev s =
     (case match_here its prev s of
        None \<Rightarrow> None
      | Some (n, g) \<Rightarrow> Some (n, if cap then [] else g))"
| "backoff its cap m (Suc k) prev s =
     (case match_here its (prev_after prev s (Suc k)) (drop (Suc k) s) of
        Some (n, g) \<Rightarrow> Some (Suc k + n, if cap then take (Suc k) s else g)
      | None \<Rightarrow> if Suc k \<le> m then None else backoff its cap m k prev s)"

text \<open>The first alternative that matches at this position.\<close>

fun match_alts :: "item list list \<Rightarrow> char option \<Rightarrow> string \<Rightarrow> (nat \<times> string) option" where
  "match_alts [] prev s = None"
| "match_alts (a # as) prev s =
     (case match_here a prev s of Some r \<Rightarrow> Some r | None \<Rightarrow> match_alts as prev s)"

text \<open>
  \<open>re.findall\<close>: the matches from left to right, each search starting where the last match
  ended; the result lists the group of each match (the empty string for a pattern with no
  group, where only the number of matches is used). \<open>skip\<close> counts the characters of the
  last match still to be passed. Every pattern of the source has a literal character, so
  no match is empty.
\<close>

fun findall_from :: "item list list \<Rightarrow> nat \<Rightarrow> char option \<Rightarrow> string \<Rightarrow> string list" where
  "findall_from alts skip prev [] =
     (if skip = 0 then (case match_alts alts prev [] of None \<Rightarrow> [] | Some (n, g) \<Rightarrow> [g]) else [])"
| "findall_from alts skip prev (c # cs) =
     (if 0 < skip then findall_from alts (skip - 1) (Some c) cs
      else (case match_alts alts prev (c # cs) of
              None \<Rightarrow> findall_from alts 0 (Some c) cs
            | Some (n, g) \<Rightarrow> g # findall_from alts (n - 1) (Some c) cs))"

definition findall :: "item list list \<Rightarrow> string \<Rightarrow> string list" where
  "findall alts s = findall_from alts 0 None s"

text \<open>\<open>len(re.findall(p, s))\<close>.\<close>

definition count_matches :: "item list list \<Rightarrow> string \<Rightarrow> int" where
  "count_matches alts s = int (length (findall alts s))"

section \<open>ContractFeatureExtractor\<close>

type_synonym features = "(string \<times> pynum) list"

text \<open>
  A Python \<open>dict\<close> keeps its keys in insertion order: it is an association list with
  distinct keys, \<open>d[k] = v\<close> is \<open>AList.update k v d\<close> and \<open>d[k]\<close> raises \<open>KeyError\<close> on a
  missing key.
\<close>

definition dict_get :: "(string \<times> 'v) list \<Rightarrow> string \<Rightarrow> error + 'v" where
  "dict_get d k = (case map_of d k of None \<Rightarrow> Inl (KeyError k) | Some v \<Rightarrow> Inr v)"

definition dict_update :: "(string \<times> 'v) list \<Rightarrow> (string \<times> 'v) list \<Rightarrow> (string \<times> 'v) list" where
  "dict_update d e = fold (\<lambda>(k, v). AList.update k v) e d"

definition opcodes_to_track :: "string list" where
  "opcodes_to_track =
     [''CALL'', ''DELEGATECALL'', ''STATICCALL'', ''SELFDESTRUCT'', ''SSTORE'', ''SLOAD'',
      ''CREATE'', ''CREATE2'', ''EXTCODESIZE'', ''EXTCODECOPY'', ''BALANCE'']"

text \<open>The entries of \<open>self.patterns\<close>, in the order of the source.\<close>

definition pat_external_calls :: "item list list" where
  "pat_external_calls =
     [lits ''.call{'',
      lits ''.'' @ [Rep Space 0] @ lits ''call'' @ [Rep Space 0] @ lits ''('',
      lits ''.delegatecall'',
      lits ''.staticcall'']"

definition pat_send_transfer :: "item list list" where
  "pat_send_transfer =
     [lits ''.send'' @ [Rep Space 0] @ lits ''('', lits ''.transfer'' @ [Rep Space 0] @ lits ''('']"

definition pat_selfdestruct :: "item list list" where
  "pat_selfdestruct =
     [lits ''selfdestruct'' @ [Rep Space 0] @ lits ''('', lits ''suicide'' @ [Rep Space 0] @ lits ''('']"

definition pat_assembly :: "item list list" where
  "pat_assembly = [lits ''assembly'' @ [Rep Space 0] @ lits ''{'']"

definition pat_unchecked_math :: "item list list" where
  "pat_unchecked_math = [lits ''unchecked'' @ [Rep Space 0] @ lits ''{'']"

definition pat_require_check :: "item list list" where
  "pat_require_check = [lits ''require'' @ [Rep Space 0] @ lits ''('']"

definition pat_tx_origin :: "item list list" where
  "pat_tx_origin = [lits ''tx.origin'']"

definition pat_block_values :: "item list list" where
  "pat_block_values = [lits ''block.timestamp'', lits ''block.number'', lits ''block.difficulty'']"

definition pat_balance_check :: "item list list" where
  "pat_balance_check = [lits ''balance'', lits ''balanceOf'']"

definition pat_ether_lock :: "item list list" where
  "pat_ether_lock =
     [lits ''receive'' @ [Rep Space 0] @ lits ''('' @ [Rep Space 0] @ lits '')'',
      lits ''fallback'' @ [Rep Space 0] @ lits ''('' @ [Rep Space 0] @ lits '')'']"

definition pat_reentrancy_guard :: "item list list" where
  "pat_reentrancy_guard = [lits ''nonReentrant'', lits ''ReentrancyGuard'']"

text \<open>The patterns written in place in the methods.\<close>

definition pat_function :: "item list list" where
  "pat_function = [lits ''function'' @ [Rep Space 1, Rep Word 1]]"

definition pat_event :: "item list list" where
  "pat_event = [lits ''event'' @ [Rep Space 1, Rep Word 1]]"

definition pat_modifier :: "item list list" where
  "pat_modifier = [lits ''modifier'' @ [Rep Space 1, Rep Word 1]]"

definition pat_constructor :: "item list list" where
  "pat_constructor = [lits ''constructor'' @ [Rep Space 0] @ lits ''('']"

definition pat_state_variable :: "item list list" where
  "pat_state_variable =
     [[BOL, Rep Space 0, Rep Word 1, Rep Space 1, Rep Word 1, Rep Space 0] @ lits '';'']"

definition pat_mapping :: "item list list" where
  "pat_mapping = [lits ''mapping'' @ [Rep Space 0] @ lits ''('']"

definition pat_array :: "item list list" where
  "pat_array = [lits ''[]'']"

definition pat_inheritance :: "item list list" where
  "pat_inheritance =
     [lits ''contract'' @ [Rep Space 1, Rep Word 1, Rep Space 1] @ lits ''is'' @ [Rep Space 1]]"

definition pat_import :: "item list list" where
  "pat_import = [lits ''import'' @ [Rep Space 1]]"

definition pat_function_body :: "item list list" where
  "pat_function_body =
     [lits ''function'' @ [Rep Space 1, Rep Word 1, Rep (NotCh CHR ''{'') 0] @ lits ''{'' @
      [Cap (NotCh CHR ''}'') 0] @ lits ''}'']"

definition pat_if :: "item list list" where
  "pat_if = [[WordB] @ lits ''if'' @ [Rep Space 0] @ lits ''('']"

definition pat_for :: "item list list" where
  "pat_for = [[WordB] @ lits ''for'' @ [Rep Space 0] @ lits ''('']"

definition pat_while :: "item list list" where
  "pat_while = [[WordB] @ lits ''while'' @ [Rep Space 0] @ lits ''('']"

definition pat_do :: "item list list" where
  "pat_do = [[WordB] @ lits ''do'' @ [Rep Space 0] @ lits ''{'']"

definition newline :: char where
  "newline = CHR 0x0A"

definition calculate_avg_function_length :: "string \<Rightarrow> error + pynum" where
  "calculate_avg_function_length code =
     (let functions = findall pat_function_body code in
      if functions = [] then Inr (PInt 0)
      else and_then
             (truediv (sum_list (map (\<lambda>f. int (length (split_on newline f))) functions))
                (int (length functions)))
             (\<lambda>q. Inr (PFloat q)))"

definition estimate_cyclomatic_complexity :: "string \<Rightarrow> int" where
  "estimate_cyclomatic_complexity code =
     (let if_count = count_matches pat_if code;
          for_count = count_matches pat_for code;
          while_count = count_matches pat_while code;
          do_count = count_matches pat_do code
      in 1 + if_count + for_count + while_count + do_count)"

definition extract_bytecode_features :: "string \<Rightarrow> features" where
  "extract_bytecode_features bytecode =
     fold (\<lambda>opcode feats.
             AList.update (''opcode_'' @ lower opcode)
               (PInt (int (count_sub opcode (upper bytecode)))) feats)
       opcodes_to_track []"

text \<open>
  \<open>extract_features\<close>. The \<open>abi\<close> argument is accepted and never read. Python's \<open>if not
  contract_code\<close> and \<open>if bytecode\<close> test for the empty string (and \<open>None\<close>).
\<close>

definition extract_features :: "string \<Rightarrow> string option \<Rightarrow> 'abi option \<Rightarrow> error + features" where
  "extract_features contract_code bytecode abi =
     (if contract_code = [] then Inr []
      else
        let lines_of_code = int (length (split_on newline contract_code));
            contract_size = int (length contract_code);
            function_count = count_matches pat_function contract_code;
            event_count = count_matches pat_event contract_code;
            modifier_count = count_matches pat_modifier contract_code;
            constructor_count = count_matches pat_constructor contract_code;
            external_calls = count_matches pat_external_calls contract_code;
            send_transfer_calls = count_matches pat_send_transfer contract_code;
            selfdestruct_calls = count_matches pat_selfdestruct contract_code;
            assembly_blocks = count_matches pat_assembly contract_code;
            unchecked_blocks = count_matches pat_unchecked_math contract_code;
            require_statements = count_matches pat_require_check contract_code;
            tx_origin_uses = count_matches pat_tx_origin contract_code;
            block_value_uses = count_matches pat_block_values contract_code;
            balance_checks = count_matches pat_balance_check contract_code;
            ether_receive = count_matches pat_ether_lock contract_code;
            reentrancy_protection = count_matches pat_reentrancy_guard contract_code
        in
        and_then (calculate_avg_function_length contract_code) (\<lambda>avg_function_length.
        let cyclomatic_complexity = estimate_cyclomatic_complexity contract_code;
            state_variables = count_matches pat_state_variable contract_code;
            mappings = count_matches pat_mapping contract_code;
            arrays = count_matches pat_array contract_code;
            inheritance_count = count_matches pat_inheritance contract_code;
            import_count = count_matches pat_import contract_code;
            using_safe_math = (if contains ''SafeMath'' contract_code then 1 else 0);
            bytecode_features =
              (case bytecode of
                 None \<Rightarrow> []
               | Some b \<Rightarrow> if b = [] then [] else extract_bytecode_features b)
        in
        and_then (truediv external_calls (max function_count 1)) (\<lambda>external_calls_per_function.
        and_then (truediv require_statements (max function_count 1)) (\<lambda>require_per_function.
        and_then (truediv cyclomatic_complexity (max function_count 1)) (\<lambda>complexity_per_function.
        let feats =
              [(''lines_of_code'', PInt lines_of_code),
               (''contract_size'', PInt contract_size),
               (''function_count'', PInt function_count),
               (''event_count'', PInt event_count),
               (''modifier_count'', PInt modifier_count),
               (''constructor_count'', PInt constructor_count),
               (''state_variables'', PInt state_variables),
               (''mappings'', PInt mappings),
               (''arrays'', PInt arrays),
               (''inheritance_count'', PInt inheritance_count),
               (''import_count'', PInt import_count),
               (''external_calls'', PInt external_calls),
               (''send_transfer_calls'', PInt send_transfer_calls),
               (''selfdestruct_calls'', PInt selfdestruct_calls),
               (''assembly_blocks'', PInt assembly_blocks),
               (''unchecked_blocks'', PInt unchecked_blocks),
               (''tx_origin_uses'', PInt tx_origin_uses),
               (''block_value_uses'', PInt block_value_uses),
               (''require_statements'', PInt require_statements),
               (''balance_checks'', PInt balance_checks),
               (''ether_receive'', PInt ether_receive),
               (''reentrancy_protection'', PInt reentrancy_protection),
               (''using_safe_math'', PInt using_safe_math),
               (''avg_function_length'', avg_function_length),
               (''cyclomatic_complexity'', PInt cyclomatic_complexity),
               (''external_calls_per_function'', PFloat external_calls_per_function),
               (''require_per_function'', PFloat require_per_function),
               (''complexity_per_function'', PFloat complexity_per_function)]
        in Inr (if bytecode_features \<noteq> [] then dict_update feats bytecode_features else feats))))))"

text \<open>
  The feature schema: the keys of the dict literal in \<open>extract_features\<close>, in its order, and
  the keys \<open>_extract_bytecode_features\<close> adds.
\<close>

definition base_keys :: "string list" where
  "base_keys =
     [''lines_of_code'', ''contract_size'', ''function_count'', ''event_count'',
      ''modifier_count'', ''constructor_count'', ''state_variables'', ''mappings'', ''arrays'',
      ''inheritance_count'', ''import_count'', ''external_calls'', ''send_transfer_calls'',
      ''selfdestruct_calls'', ''assembly_blocks'', ''unchecked_blocks'', ''tx_origin_uses'',
      ''block_value_uses'', ''require_statements'', ''balance_checks'', ''ether_receive'',
      ''reentrancy_protection'', ''using_safe_math'', ''avg_function_length'',
      ''cyclomatic_complexity'', ''external_calls_per_function'', ''require_per_function'',
      ''complexity_per_function'']"

definition opcode_keys :: "string list" where
  "opcode_keys = map (\<lambda>opcode. ''opcode_'' @ lower opcode) opcodes_to_track"

section \<open>AnomalyDetector\<close>

subsection \<open>The libraries\<close>

text \<open>
  \<open>pd.DataFrame(dicts).fillna(0)\<close>: one column per key, in the order of first appearance,
  one row per dict, 0 where a dict has no such key. \<open>df.values\<close> is \<open>rows\<close>.
\<close>

record frame =
  columns :: "string list"
  rows :: "rat list list"

definition data_frame :: "features list \<Rightarrow> frame" where
  "data_frame fs =
     (let cols = rev (remdups (rev (concat (map (map fst) fs)))) in
      \<lparr>columns = cols,
       rows = map (\<lambda>f. map (\<lambda>k. case map_of f k of None \<Rightarrow> 0 | Some v \<Rightarrow> num_val v) cols) fs\<rparr>)"

text \<open>
  scikit-learn is not part of the repository. The scaler (\<open>StandardScaler\<close>) and the outlier
  model (\<open>IsolationForest\<close>) are objects with a state of their own, of the types \<open>'sc\<close> and
  \<open>'md\<close>; what their methods do is a parameter of the model. A method that fits returns
  the state it leaves behind, also when it raises. \<open>float_repr\<close> is Python's \<open>str\<close> of a
  float.
\<close>

record ('sc, 'md) pylib =
  scaler_fit_transform :: "'sc \<Rightarrow> frame \<Rightarrow> 'sc \<times> (error + rat list list)"
  scaler_transform :: "'sc \<Rightarrow> frame \<Rightarrow> error + rat list list"
  model_fit :: "'md \<Rightarrow> rat list list \<Rightarrow> 'md \<times> (error + unit)"
  model_score_samples :: "'md \<Rightarrow> rat list list \<Rightarrow> error + rat list"
  model_predict :: "'md \<Rightarrow> rat list list \<Rightarrow> error + int list"
  float_repr :: "rat \<Rightarrow> string"

text \<open>\<open>xs[0]\<close>.\<close>

definition index0 :: "'a list \<Rightarrow> error + 'a" where
  "index0 xs = (case xs of [] \<Rightarrow> Inl IndexError | x # _ \<Rightarrow> Inr x)"

text \<open>\<open>str\<close> of a number, as an f-string formats it.\<close>

fun digits :: "nat \<Rightarrow> string" where
  "digits n = (if n < 10 then [char_of (48 + n)] else digits (n div 10) @ [char_of (48 + n mod 10)])"

declare digits.simps [simp del]

definition py_str :: "(rat \<Rightarrow> string) \<Rightarrow> pynum \<Rightarrow> string" where
  "py_str fr v =
     (case v of
        PInt i \<Rightarrow> if i < 0 then CHR ''-'' # digits (nat (- i)) else digits (nat i)
      | PFloat q \<Rightarrow> fr q)"

text \<open>\<open>sep.join(xs)\<close>.\<close>

fun join :: "string \<Rightarrow> string list \<Rightarrow> string" where
  "join sep [] = []"
| "join sep [x] = x"
| "join sep (x # y # ys) = x @ sep @ join sep (y # ys)"

subsection \<open>The detector\<close>

record ('sc, 'md) detector =
  scaler :: 'sc
  model :: 'md

text \<open>The float literals of the source are the doubles nearest to them.\<close>

definition threshold_score :: rat where
  "threshold_score = - (1 / 2)"

definition float_neg_0_8 :: rat where
  "float_neg_0_8 = - (3602879701896397 / 4503599627370496)"

definition float_neg_0_6 :: rat where
  "float_neg_0_6 = - (5404319552844595 / 9007199254740992)"

text \<open>An entry of \<open>anomaly_factors\<close>: the dict with the keys factor, description and value.\<close>

record anomaly_factor =
  factor :: string
  description :: string
  factor_value :: pynum

record prediction =
  is_anomaly :: bool
  anomaly_score :: rat
  result_features :: features
  anomaly_factors :: "anomaly_factor list"
  threshold :: rat
  recommendation :: string

definition risk_factors :: "(string \<times> int) list" where
  "risk_factors =
     [(''selfdestruct_calls'', 0), (''external_calls'', 5), (''tx_origin_uses'', 0),
      (''assembly_blocks'', 3), (''reentrancy_protection'', 0), (''using_safe_math'', 0)]"

text \<open>The body of the loop over \<open>risk_factors.items()\<close>, appending to \<open>acc\<close>.\<close>

definition check_risk_factor ::
  "(rat \<Rightarrow> string) \<Rightarrow> features \<Rightarrow> string \<times> int \<Rightarrow> anomaly_factor list \<Rightarrow> error + anomaly_factor list" where
  "check_risk_factor fr feats p acc =
     (let name = fst p; thr = snd p in
      if name \<in> fst ` set feats then
        and_then (dict_get feats name) (\<lambda>v.
          if name = ''reentrancy_protection'' then
            (if num_val v = 0 then
               and_then (dict_get feats ''external_calls'') (\<lambda>ec.
                 if num_val ec > 0 then
                   Inr (acc @ [\<lparr>factor = ''missing_reentrancy_protection'',
                     description = ''Contract makes external calls but has no reentrancy protection'',
                     factor_value = ec\<rparr>])
                 else Inr acc)
             else Inr acc)
          else if name = ''using_safe_math'' then
            (if num_val v = 0 then
               Inr (acc @ [\<lparr>factor = ''missing_safe_math'',
                 description = ''Contract does not use SafeMath which may indicate vulnerability to overflow/underflow'',
                 factor_value = PInt 0\<rparr>])
             else Inr acc)
          else if num_val v > of_int thr then
            (let factor_name = map (\<lambda>c. if c = CHR ''_'' then CHR '' '' else c) name in
             Inr (acc @ [\<lparr>factor = name,
               description = ''Contract has unusual number of '' @ factor_name @ '' ('' @ py_str fr v @ '')'',
               factor_value = v\<rparr>]))
          else Inr acc)
      else Inr acc)"

fun risk_loop ::
  "(rat \<Rightarrow> string) \<Rightarrow> features \<Rightarrow> (string \<times> int) list \<Rightarrow> anomaly_factor list \<Rightarrow> error + anomaly_factor list" where
  "risk_loop fr feats [] acc = Inr acc"
| "risk_loop fr feats (p # ps) acc =
     and_then (check_risk_factor fr feats p acc) (risk_loop fr feats ps)"

definition analyze_anomaly_factors :: "(rat \<Rightarrow> string) \<Rightarrow> features \<Rightarrow> error + anomaly_factor list" where
  "analyze_anomaly_factors fr feats =
     and_then (dict_get feats ''contract_size'') (\<lambda>size.
     let acc0 = (if num_val size > 10000 then
                   [\<lparr>factor = ''large_contract_size'',
                     description = ''Contract is unusually large which may indicate complexity issues'',
                     factor_value = size\<rparr>]
                 else []) in
     and_then (risk_loop fr feats risk_factors acc0) (\<lambda>acc1.
     and_then (dict_get feats ''cyclomatic_complexity'') (\<lambda>cc.
     let acc2 = (if num_val cc > 50 then
                   acc1 @ [\<lparr>factor = ''high_complexity'',
                     description = ''Contract has high cyclomatic complexity which may indicate maintainability issues'',
                     factor_value = cc\<rparr>]
                 else acc1) in
     and_then (dict_get feats ''external_calls_per_function'') (\<lambda>epf.
     let acc3 = (if num_val epf > 2 then
                   acc2 @ [\<lparr>factor = ''high_external_calls_per_function'',
                     description = ''Contract has unusually high ratio of external calls per function'',
                     factor_value = epf\<rparr>]
                 else acc2) in
     and_then (dict_get feats ''require_per_function'') (\<lambda>rpf.
     if num_val rpf < 1 / 2 then
       and_then (dict_get feats ''function_count'') (\<lambda>fc.
         if num_val fc > 5 then
           Inr (acc3 @ [\<lparr>factor = ''low_require_checks'',
             description = ''Contract has low number of require checks per function which may indicate missing validation'',
             factor_value = rpf\<rparr>])
         else Inr acc3)
     else Inr acc3)))))"

text \<open>The \<open>if\<close>/\<open>elif\<close> chain of \<open>_generate_recommendation\<close>: the line for a factor key.\<close>

definition recommendation_line :: "string \<Rightarrow> string option" where
  "recommendation_line k =
     (if k = ''selfdestruct_calls'' then
        Some ''- Implement strict access controls for selfdestruct operations.''
      else if k = ''external_calls'' then
        Some ''- Review and limit external calls. Consider implementing the checks-effects-interactions pattern.''
      else if k = ''tx_origin_uses'' then
        Some ''- Replace tx.origin with msg.sender to prevent phishing attacks.''
      else if k = ''assembly_blocks'' then
        Some ''- Review inline assembly code carefully for potential bugs or vulnerabilities.''
      else if k = ''missing_reentrancy_protection'' then
        Some (''- Implement reentrancy guards (like OpenZeppelin'' @ [CHR 0x27] @
              ''s ReentrancyGuard) for functions making external calls.'')
      else if k = ''missing_safe_math'' then
        Some ''- Use SafeMath library or Solidity 0.8.0+ for automatic overflow/underflow protection.''
      else if k = ''high_complexity'' then
        Some ''- Consider refactoring complex functions into smaller, more manageable pieces.''
      else if k = ''large_contract_size'' then
        Some ''- Split large contracts into smaller, specialized contracts to improve readability and gas efficiency.''
      else if k = ''low_require_checks'' then
        Some ''- Add thorough input validation with require statements for each function.''
      else if k = ''high_external_calls_per_function'' then
        Some ''- Review and possibly reduce the number of external calls per function to limit exposure.''
      else None)"

definition recommendation_header :: string where
  "recommendation_header =
     ''The contract contains unusual patterns that may indicate potential issues:''"

fun recommendation_lines :: "anomaly_factor list \<Rightarrow> string list \<Rightarrow> string list" where
  "recommendation_lines [] recs = recs"
| "recommendation_lines (f # fs) recs =
     recommendation_lines fs
       (case recommendation_line (factor f) of None \<Rightarrow> recs | Some l \<Rightarrow> recs @ [l])"

definition generate_recommendation :: "int \<Rightarrow> features \<Rightarrow> anomaly_factor list \<Rightarrow> string" where
  "generate_recommendation pred feats facs =
     (if pred \<noteq> - 1 then
        ''No significant anomalies detected. The contract appears to follow common patterns.''
      else join [newline] (recommendation_lines facs [recommendation_header]))"

text \<open>
  \<open>predict\<close>, in two parts: the choice of \<open>X\<close> (the \<open>try\<close>/\<open>except\<close> around
  \<open>scaler.transform\<close>, whose bare \<open>except\<close> catches every error), and \<open>score_and_report\<close>,
  the rest of the method from \<open>score = ...\<close> on.
\<close>

definition score_and_report ::
  "('sc, 'md) pylib \<Rightarrow> 'md \<Rightarrow> features \<Rightarrow> rat list list \<Rightarrow> error + prediction" where
  "score_and_report lib md feats X =
     and_then (model_score_samples lib md X) (\<lambda>scores.
     and_then (index0 scores) (\<lambda>score.
     and_then (model_predict lib md X) (\<lambda>labels.
     and_then (index0 labels) (\<lambda>label.
     and_then (if label = - 1 then analyze_anomaly_factors (float_repr lib) feats else Inr []) (\<lambda>facs.
     Inr \<lparr>is_anomaly = (label = - 1),
          anomaly_score = score,
          result_features = feats,
          anomaly_factors = facs,
          threshold = threshold_score,
          recommendation = generate_recommendation label feats facs\<rparr>)))))"

definition predict ::
  "('sc, 'md) pylib \<Rightarrow> ('sc, 'md) detector \<Rightarrow> string \<Rightarrow> string option \<Rightarrow> 'abi option \<Rightarrow> error + prediction" where
  "predict lib d contract_code bytecode abi =
     and_then (extract_features contract_code bytecode abi) (\<lambda>feats.
     let df = data_frame [feats];
         X = (case scaler_transform lib (scaler d) df of Inl e \<Rightarrow> rows df | Inr Y \<Rightarrow> Y)
     in score_and_report lib (model d) feats X)"

text \<open>
  \<open>train\<close>. A contract record is a dict of strings; \<open>contract['code']\<close> raises on a record
  without that key, \<open>contract.get\<close> gives \<open>None\<close>. The method changes the detector in place:
  the result is the detector as the call leaves it, and whether it raised.
\<close>

type_synonym contract = "(string \<times> string) list"

fun extract_all :: "contract list \<Rightarrow> features list \<Rightarrow> error + features list" where
  "extract_all [] features_list = Inr features_list"
| "extract_all (c # cs) features_list =
     and_then (dict_get c ''code'') (\<lambda>code.
     and_then (extract_features code (map_of c ''bytecode'') (map_of c ''abi'')) (\<lambda>feats.
     extract_all cs (features_list @ [feats])))"

definition train ::
  "('sc, 'md) pylib \<Rightarrow> ('sc, 'md) detector \<Rightarrow> contract list \<Rightarrow> ('sc, 'md) detector \<times> (error + unit)" where
  "train lib d contracts_data =
     (case extract_all contracts_data [] of
        Inl e \<Rightarrow> (d, Inl e)
      | Inr features_list \<Rightarrow>
          (let df = data_frame features_list in
           case scaler_fit_transform lib (scaler d) df of
             (sc, Inl e) \<Rightarrow> (d\<lparr>scaler := sc\<rparr>, Inl e)
           | (sc, Inr X) \<Rightarrow>
               (case model_fit lib (model d) X of
                  (md, Inl e) \<Rightarrow> (\<lparr>scaler = sc, model = md\<rparr>, Inl e)
                | (md, Inr u) \<Rightarrow> (\<lparr>scaler = sc, model = md\<rparr>, Inr ()))))"

text \<open>
  \<open>save_model\<close>. The files are a map from paths to what \<open>joblib.dump\<close> wrote there; a dump
  replaces the file at its path. \<open>joblib.load\<close> gives back what the last dump to the path
  wrote.
\<close>

datatype ('sc, 'md) blob = ModelBlob 'md | ScalerBlob 'sc

type_synonym ('sc, 'md) files = "string \<rightharpoonup> ('sc, 'md) blob"

definition joblib_dump :: "('sc, 'md) blob \<Rightarrow> string \<Rightarrow> ('sc, 'md) files \<Rightarrow> ('sc, 'md) files" where
  "joblib_dump b path fs = fs(path \<mapsto> b)"

definition joblib_load :: "('sc, 'md) files \<Rightarrow> string \<Rightarrow> ('sc, 'md) blob option" where
  "joblib_load fs path = fs path"

definition save_model :: "('sc, 'md) detector \<Rightarrow> string \<Rightarrow> ('sc, 'md) files \<Rightarrow> ('sc, 'md) files" where
  "save_model d model_path fs =
     (let fs1 = joblib_dump (ModelBlob (model d)) model_path fs;
          scaler_path = replace_from ''.pkl'' ''_scaler.pkl'' model_path
      in joblib_dump (ScalerBlob (scaler d)) scaler_path fs1)"

section \<open>AnomalyDetectorAPI\<close>

text \<open>
  The status text starts with a coloured circle beyond code point 255, so the two texts
  \<open>Anomaly detected\<close> and \<open>No anomalies detected\<close> are modelled by their names.
\<close>

datatype status_text = Anomaly_detected | No_anomalies_detected

record response =
  status :: status_text
  risk_level :: string
  response_score :: rat
  analysis_summary :: string
  response_recommendation :: string
  response_factors :: "anomaly_factor list"
  detailed_features :: features

definition determine_risk_level :: "prediction \<Rightarrow> string" where
  "determine_risk_level result =
     (if \<not> is_anomaly result then ''Low''
      else
        let high_risk_count =
              length (filter (\<lambda>f. factor f \<in> set [''selfdestruct_calls'', ''tx_origin_uses'',
                                                    ''missing_reentrancy_protection''])
                        (anomaly_factors result))
        in if high_risk_count > 0 \<or> anomaly_score result < float_neg_0_8 then ''High''
           else if anomaly_score result < float_neg_0_6 then ''Medium''
           else ''Low-Medium'')"

definition categories :: "(string \<times> string list) list" where
  "categories =
     [(''security'', [''selfdestruct_calls'', ''tx_origin_uses'', ''missing_reentrancy_protection'',
                      ''missing_safe_math'']),
      (''complexity'', [''high_complexity'', ''large_contract_size'']),
      (''structure'', [''external_calls'', ''high_external_calls_per_function'',
                       ''low_require_checks'', ''assembly_blocks''])]"

text \<open>\<open>s.capitalize()\<close>, on the category names (ASCII).\<close>

definition capitalize :: "string \<Rightarrow> string" where
  "capitalize s = (case s of [] \<Rightarrow> [] | c # cs \<Rightarrow> upper_char c @ lower cs)"

definition create_analysis_summary :: "prediction \<Rightarrow> string" where
  "create_analysis_summary result =
     (if \<not> is_anomaly result then
        ''This contract follows common patterns and doesn'' @ [CHR 0x27] @
        ''t exhibit unusual characteristics.''
      else if anomaly_factors result = [] then
        ''This contract deviates from common patterns, but no specific risk factors were identified.''
      else
        let factor_categories =
              fold (\<lambda>f fc.
                      case find (\<lambda>(category, factors). factor f \<in> set factors) categories of
                        None \<Rightarrow> fc
                      | Some (category, factors) \<Rightarrow>
                          AList.map_entry category (\<lambda>ds. ds @ [description f]) fc)
                (anomaly_factors result) (map (\<lambda>(category, factors). (category, [])) categories);
            summary_parts =
              concat (map (\<lambda>(category, descriptions).
                             if descriptions \<noteq> [] then
                               [capitalize category @ '' issues: '' @ join '', '' descriptions]
                             else [])
                        factor_categories)
        in join '' '' summary_parts)"

definition important_keys :: "string list" where
  "important_keys =
     [''function_count'', ''external_calls'', ''selfdestruct_calls'', ''tx_origin_uses'',
      ''assembly_blocks'', ''require_statements'', ''reentrancy_protection'', ''using_safe_math'',
      ''cyclomatic_complexity'']"

definition filter_important_features :: "features \<Rightarrow> features" where
  "filter_important_features feats = filter (\<lambda>(k, v). k \<in> set important_keys) feats"

definition analyze_contract ::
  "('sc, 'md) pylib \<Rightarrow> ('sc, 'md) detector \<Rightarrow> string \<Rightarrow> string option \<Rightarrow> 'abi option \<Rightarrow> error + response" where
  "analyze_contract lib d contract_code bytecode abi =
     and_then (predict lib d contract_code bytecode abi) (\<lambda>result.
     let anomaly_status = (if is_anomaly result then Anomaly_detected else No_anomalies_detected);
         level = determine_risk_level result
     in Inr \<lparr>status = anomaly_status,
             risk_level = level,
             response_score = anomaly_score result,
             analysis_summary = create_analysis_summary result,
             response_recommendation = recommendation result,
             response_factors = anomaly_factors result,
             detailed_features = filter_important_features (result_features result)\<rparr>)"

text \<open>
  \<open>train_model\<close>: the detector and the files as the call leaves them, and the boolean it
  returns. Any exception of \<open>train\<close> is caught and reported as \<open>False\<close>.
\<close>

definition train_model ::
  "('sc, 'md) pylib \<Rightarrow> ('sc, 'md) detector \<Rightarrow> ('sc, 'md) files \<Rightarrow> contract list \<Rightarrow> string \<Rightarrow>
   ('sc, 'md) detector \<times> ('sc, 'md) files \<times> bool" where
  "train_model lib d fs contracts_data model_path =
     (case train lib d contracts_data of
        (d1, Inl e) \<Rightarrow> (d1, fs, False)
      | (d1, Inr u) \<Rightarrow> (d1, save_model d1 model_path fs, True))"

section \<open>A small scaler and outlier model\<close>

text \<open>
  Concrete objects to run the detector on. The scaler centres each column on its mean over
  the training frame. As \<open>StandardScaler.fit\<close> does, it clears what it had fitted before it
  looks at the data, rejects a frame with no row or no column, and refuses to transform
  before it is fitted or a frame with other columns than it was fitted on. The outlier
  model is one split on the first column: a row is an outlier when its first entry exceeds
  the largest one seen in training. As every scikit-learn estimator does, it rejects an
  array with no column or with a number of columns other than the one it was fitted on.
\<close>

datatype scaler_state = Scaler_unfitted | Scaler_fitted "string list" "rat list"

datatype model_state = Model_unfitted | Model_fitted nat rat

definition column_means :: "rat list list \<Rightarrow> rat list" where
  "column_means X =
     map (\<lambda>j. sum_list (map (\<lambda>r. r ! j) X) / of_nat (length X)) [0..<length (hd X)]"

definition centre :: "rat list \<Rightarrow> rat list list \<Rightarrow> rat list list" where
  "centre means X = map (\<lambda>r. map (\<lambda>(x, m). x - m) (zip r means)) X"

definition small_fit_transform :: "scaler_state \<Rightarrow> frame \<Rightarrow> scaler_state \<times> (error + rat list list)" where
  "small_fit_transform sc df =
     (if rows df = [] \<or> columns df = [] then (Scaler_unfitted, Inl ValueError)
      else (Scaler_fitted (columns df) (column_means (rows df)),
            Inr (centre (column_means (rows df)) (rows df))))"

definition small_transform :: "scaler_state \<Rightarrow> frame \<Rightarrow> error + rat list list" where
  "small_transform sc df =
     (case sc of
        Scaler_unfitted \<Rightarrow> Inl NotFittedError
      | Scaler_fitted cols means \<Rightarrow>
          if rows df = [] \<or> columns df \<noteq> cols then Inl ValueError
          else Inr (centre means (rows df)))"

definition width_ok :: "nat \<Rightarrow> rat list list \<Rightarrow> bool" where
  "width_ok n X = (X \<noteq> [] \<and> 0 < n \<and> list_all (\<lambda>r. length r = n) X)"

definition small_model_fit :: "model_state \<Rightarrow> rat list list \<Rightarrow> model_state \<times> (error + unit)" where
  "small_model_fit md X =
     (if X = [] \<or> hd X = [] then (md, Inl ValueError)
      else (Model_fitted (length (hd X)) (fold max (map hd X) (hd (hd X))), Inr ()))"

definition small_outlier :: "rat \<Rightarrow> rat list \<Rightarrow> bool" where
  "small_outlier t r = (t < hd r)"

definition small_score_samples :: "model_state \<Rightarrow> rat list list \<Rightarrow> error + rat list" where
  "small_score_samples md X =
     (case md of
        Model_unfitted \<Rightarrow> Inl NotFittedError
      | Model_fitted n t \<Rightarrow>
          if width_ok n X then Inr (map (\<lambda>r. if small_outlier t r then - (3 / 4) else - (1 / 4)) X)
          else Inl ValueError)"

definition small_predict :: "model_state \<Rightarrow> rat list list \<Rightarrow> error + int list" where
  "small_predict md X =
     (case md of
        Model_unfitted \<Rightarrow> Inl NotFittedError
      | Model_fitted n t \<Rightarrow>
          if width_ok n X then Inr (map (\<lambda>r. if small_outlier t r then - 1 else 1) X)
          else Inl ValueError)"

definition small_lib :: "(scaler_state, model_state) pylib" where
  "small_lib =
     \<lparr>scaler_fit_transform = small_fit_transform,
      scaler_transform = small_transform,
      model_fit = small_model_fit,
      model_score_samples = small_score_samples,
      model_predict = small_predict,
      float_repr = (\<lambda>q. ''float'')\<rparr>"

text \<open>A fresh detector, as \<open>AnomalyDetector()\<close> builds it, and a one-function contract.\<close>

definition fresh_detector :: "(scaler_state, model_state) detector" where
  "fresh_detector = \<lparr>scaler = Scaler_unfitted, model = Model_unfitted\<rparr>"

definition sample_code :: string where
  "sample_code = ''contract C { function get() public view returns (uint) { return 1; } }''"

text \<open>The example source of the specification, and a source with one call and no function.\<close>

definition example_source :: string where
  "example_source = ''pragma solidity ^0.8.0; contract C { function set(uint x) public { data = x; } function get() public view returns (uint) { return data; } }''"

definition call_source :: string where
  "call_source = ''x = a.call(b);''"

text \<open>The keys a factor can have, in the order in which the rules are tried.\<close>

definition factor_keys :: "string list" where
  "factor_keys =
     [''large_contract_size'', ''selfdestruct_calls'', ''external_calls'', ''tx_origin_uses'',
      ''assembly_blocks'', ''missing_reentrancy_protection'', ''missing_safe_math'',
      ''high_complexity'', ''high_external_calls_per_function'', ''low_require_checks'']"

text \<open>A rule that fires appends one factor; \<open>opt c x\<close> is what it appends.\<close>

definition opt :: "bool \<Rightarrow> 'a \<Rightarrow> 'a list" where
  "opt c x = (if c then [x] else [])"

text \<open>The remediation lines of the factor keys.\<close>

definition remediation_lines :: "string list" where
  "remediation_lines = map (\<lambda>k. the (recommendation_line k)) factor_keys"

text \<open>
  The detector that training on the one-function contract gives (lemma \<open>train_sample\<close>
  below); the detector \<open>AnomalyDetector(model_path)\<close> builds from its saved model, with the
  loaded model and a fresh scaler; and a source of two lines.
\<close>

definition trained_detector :: "(scaler_state, model_state) detector" where
  "trained_detector =
     \<lparr>scaler = Scaler_fitted base_keys
        [1, 70, 1, 0, 0, 0, 0, 0, 0, 0, 0, 0, 0, 0, 0, 0, 0, 0, 0, 0, 0, 0, 0, 1, 1, 0, 0, 1],
      model = Model_fitted 28 0\<rparr>"

definition loaded_detector :: "(scaler_state, model_state) detector" where
  "loaded_detector = \<lparr>scaler = Scaler_unfitted, model = Model_fitted 28 0\<rparr>"

definition two_line_source :: string where
  "two_line_source =
     ''contract C {'' @ [newline] @ '' function get() public view returns (uint) { return 1; } }''"

section \<open>The feature mapping\<close>

lemma avg_function_length_ok:
  "\<exists>v. calculate_avg_function_length code = Inr v \<and> 0 \<le> num_val v"
  unfolding calculate_avg_function_length_def Let_def and_then_def truediv_def
  by (auto intro!: divide_nonneg_nonneg sum_list_nonneg)

lemma bytecode_features_eq:
  "extract_bytecode_features b =
     map (\<lambda>opcode. (''opcode_'' @ lower opcode, PInt (int (count_sub opcode (upper b)))))
       opcodes_to_track"
  unfolding extract_bytecode_features_def opcodes_to_track_def
  by (simp add: lower_def lower_char_def)

lemma dict_update_disjoint:
  "distinct (map fst e) \<Longrightarrow> set (map fst d) \<inter> set (map fst e) = {} \<Longrightarrow>
   dict_update d e = d @ e"
  unfolding dict_update_def
proof (induction e arbitrary: d)
  case Nil
  then show ?case by simp
next
  case (Cons p e)
  obtain k v where p: "p = (k, v)" by (cases p)
  have "AList.update k v d = d @ [(k, v)]"
    using Cons.prems(2) unfolding p
    by (induction d) auto
  then show ?case using Cons unfolding p by auto
qed

lemma opcode_keys_eq:
  "opcode_keys =
     [''opcode_call'', ''opcode_delegatecall'', ''opcode_staticcall'', ''opcode_selfdestruct'',
      ''opcode_sstore'', ''opcode_sload'', ''opcode_create'', ''opcode_create2'',
      ''opcode_extcodesize'', ''opcode_extcodecopy'', ''opcode_balance'']"
  by code_simp

lemma keys_bytecode_features: "map fst (extract_bytecode_features b) = opcode_keys"
  by (simp add: bytecode_features_eq opcode_keys_def comp_def)

lemma bytecode_features_nonneg: "list_all (\<lambda>(k, v). 0 \<le> num_val v) (extract_bytecode_features b)"
  by (simp add: bytecode_features_eq list_all_iff)

lemma distinct_opcode_keys: "distinct opcode_keys"
  unfolding opcode_keys_eq by simp

lemma distinct_base_keys: "distinct base_keys"
  unfolding base_keys_def by simp

lemma base_opcode_disjoint: "set base_keys \<inter> set opcode_keys = {}"
  unfolding opcode_keys_eq base_keys_def by simp

lemma estimate_cyclomatic_complexity_pos: "0 < estimate_cyclomatic_complexity code"
  by (simp add: estimate_cyclomatic_complexity_def Let_def count_matches_def)

lemma dict_update_opcodes:
  assumes "set (map fst d) = set base_keys"
  shows "dict_update d (extract_bytecode_features b) = d @ extract_bytecode_features b"
proof (rule dict_update_disjoint)
  show "distinct (map fst (extract_bytecode_features b))"
    by (simp only: keys_bytecode_features distinct_opcode_keys)
  show "set (map fst d) \<inter> set (map fst (extract_bytecode_features b)) = {}"
    by (simp only: assms keys_bytecode_features base_opcode_disjoint)
qed

lemma bytecode_features_nonempty: "extract_bytecode_features b \<noteq> []"
proof
  assume "extract_bytecode_features b = []"
  then have "map fst (extract_bytecode_features b) = []" by simp
  then show False by (simp add: keys_bytecode_features opcode_keys_eq)
qed

lemma extract_features_shape:
  assumes "code \<noteq> []"
  shows "\<exists>avg. calculate_avg_function_length code = Inr avg \<and>
     extract_features code bc abi = Inr (
              [(''lines_of_code'', PInt (int (length (split_on newline code)))),
               (''contract_size'', PInt (int (length code))),
               (''function_count'', PInt (count_matches pat_function code)),
               (''event_count'', PInt (count_matches pat_event code)),
               (''modifier_count'', PInt (count_matches pat_modifier code)),
               (''constructor_count'', PInt (count_matches pat_constructor code)),
               (''state_variables'', PInt (count_matches pat_state_variable code)),
               (''mappings'', PInt (count_matches pat_mapping code)),
               (''arrays'', PInt (count_matches pat_array code)),
               (''inheritance_count'', PInt (count_matches pat_inheritance code)),
               (''import_count'', PInt (count_matches pat_import code)),
               (''external_calls'', PInt (count_matches pat_external_calls code)),
               (''send_transfer_calls'', PInt (count_matches pat_send_transfer code)),
               (''selfdestruct_calls'', PInt (count_matches pat_selfdestruct code)),
               (''assembly_blocks'', PInt (count_matches pat_assembly code)),
               (''unchecked_blocks'', PInt (count_matches pat_unchecked_math code)),
               (''tx_origin_uses'', PInt (count_matches pat_tx_origin code)),
               (''block_value_uses'', PInt (count_matches pat_block_values code)),
               (''require_statements'', PInt (count_matches pat_require_check code)),
               (''balance_checks'', PInt (count_matches pat_balance_check code)),
               (''ether_receive'', PInt (count_matches pat_ether_lock code)),
               (''reentrancy_protection'', PInt (count_matches pat_reentrancy_guard code)),
               (''using_safe_math'', PInt (if contains ''SafeMath'' code then 1 else 0)),
               (''avg_function_length'', avg),
               (''cyclomatic_complexity'', PInt (estimate_cyclomatic_complexity code)),
               (''external_calls_per_function'',
                  PFloat (of_int (count_matches pat_external_calls code) /
                          of_int (max (count_matches pat_function code) 1))),
               (''require_per_function'',
                  PFloat (of_int (count_matches pat_require_check code) /
                          of_int (max (count_matches pat_function code) 1))),
               (''complexity_per_function'',
                  PFloat (of_int (estimate_cyclomatic_complexity code) /
                          of_int (max (count_matches pat_function code) 1)))]
              @ (case bc of None \<Rightarrow> [] | Some b \<Rightarrow> if b = [] then [] else extract_bytecode_features b))"
proof -
  obtain avg where avg: "calculate_avg_function_length code = Inr avg"
    using avg_function_length_ok by blast
  have nz: "max (count_matches pat_function code) 1 \<noteq> 0"
    by simp
  have k: "set (map fst ([(''lines_of_code'', PInt (int (length (split_on newline code)))),
               (''contract_size'', PInt (int (length code))),
               (''function_count'', PInt (count_matches pat_function code)),
               (''event_count'', PInt (count_matches pat_event code)),
               (''modifier_count'', PInt (count_matches pat_modifier code)),
               (''constructor_count'', PInt (count_matches pat_constructor code)),
               (''state_variables'', PInt (count_matches pat_state_variable code)),
               (''mappings'', PInt (count_matches pat_mapping code)),
               (''arrays'', PInt (count_matches pat_array code)),
               (''inheritance_count'', PInt (count_matches pat_inheritance code)),
               (''import_count'', PInt (count_matches pat_import code)),
               (''external_calls'', PInt (count_matches pat_external_calls code)),
               (''send_transfer_calls'', PInt (count_matches pat_send_transfer code)),
               (''selfdestruct_calls'', PInt (count_matches pat_selfdestruct code)),
               (''assembly_blocks'', PInt (count_matches pat_assembly code)),
               (''unchecked_blocks'', PInt (count_matches pat_unchecked_math code)),
               (''tx_origin_uses'', PInt (count_matches pat_tx_origin code)),
               (''block_value_uses'', PInt (count_matches pat_block_values code)),
               (''require_statements'', PInt (count_matches pat_require_check code)),
               (''balance_checks'', PInt (count_matches pat_balance_check code)),
               (''ether_receive'', PInt (count_matches pat_ether_lock code)),
               (''reentrancy_protection'', PInt (count_matches pat_reentrancy_guard code)),
               (''using_safe_math'', PInt (if contains ''SafeMath'' code then 1 else 0)),
               (''avg_function_length'', avg),
               (''cyclomatic_complexity'', PInt (estimate_cyclomatic_complexity code)),
               (''external_calls_per_function'',
                  PFloat (of_int (count_matches pat_external_calls code) /
                          of_int (max (count_matches pat_function code) 1))),
               (''require_per_function'',
                  PFloat (of_int (count_matches pat_require_check code) /
                          of_int (max (count_matches pat_function code) 1))),
               (''complexity_per_function'',
                  PFloat (of_int (estimate_cyclomatic_complexity code) /
                          of_int (max (count_matches pat_function code) 1)))])) = set base_keys"
    by (simp add: base_keys_def)
  note upd = dict_update_opcodes [OF k]
  have "extract_features code bc abi = Inr (
              [(''lines_of_code'', PInt (int (length (split_on newline code)))),
               (''contract_size'', PInt (int (length code))),
               (''function_count'', PInt (count_matches pat_function code)),
               (''event_count'', PInt (count_matches pat_event code)),
               (''modifier_count'', PInt (count_matches pat_modifier code)),
               (''constructor_count'', PInt (count_matches pat_constructor code)),
               (''state_variables'', PInt (count_matches pat_state_variable code)),
               (''mappings'', PInt (count_matches pat_mapping code)),
               (''arrays'', PInt (count_matches pat_array code)),
               (''inheritance_count'', PInt (count_matches pat_inheritance code)),
               (''import_count'', PInt (count_matches pat_import code)),
               (''external_calls'', PInt (count_matches pat_external_calls code)),
               (''send_transfer_calls'', PInt (count_matches pat_send_transfer code)),
               (''selfdestruct_calls'', PInt (count_matches pat_selfdestruct code)),
               (''assembly_blocks'', PInt (count_matches pat_assembly code)),
               (''unchecked_blocks'', PInt (count_matches pat_unchecked_math code)),
               (''tx_origin_uses'', PInt (count_matches pat_tx_origin code)),
               (''block_value_uses'', PInt (count_matches pat_block_values code)),
               (''require_statements'', PInt (count_matches pat_require_check code)),
               (''balance_checks'', PInt (count_matches pat_balance_check code)),
               (''ether_receive'', PInt (count_matches pat_ether_lock code)),
               (''reentrancy_protection'', PInt (count_matches pat_reentrancy_guard code)),
               (''using_safe_math'', PInt (if contains ''SafeMath'' code then 1 else 0)),
               (''avg_function_length'', avg),
               (''cyclomatic_complexity'', PInt (estimate_cyclomatic_complexity code)),
               (''external_calls_per_function'',
                  PFloat (of_int (count_matches pat_external_calls code) /
                          of_int (max (count_matches pat_function code) 1))),
               (''require_per_function'',
                  PFloat (of_int (count_matches pat_require_check code) /
                          of_int (max (count_matches pat_function code) 1))),
               (''complexity_per_function'',
                  PFloat (of_int (estimate_cyclomatic_complexity code) /
                          of_int (max (count_matches pat_function code) 1)))]
              @ (case bc of None \<Rightarrow> [] | Some b \<Rightarrow> if b = [] then [] else extract_bytecode_features b))"
  proof (cases bc)
    case None
    with assms avg show ?thesis
      by (simp add: extract_features_def Let_def and_then_def truediv_def)
  next
    case (Some b)
    show ?thesis
    proof (cases "b = []")
      case True
      with Some assms avg show ?thesis
        by (simp add: extract_features_def Let_def and_then_def truediv_def)
    next
      case False
      with Some assms avg show ?thesis
        by (simp add: extract_features_def Let_def and_then_def truediv_def
              bytecode_features_nonempty upd)
    qed
  qed
  with avg show ?thesis by blast
qed

lemma extract_features_empty: "extract_features [] bc abi = Inr []"
  by (simp add: extract_features_def)

text \<open>
  Claim C1, as the code has it. \<open>extract_features\<close> never raises. For the empty source it
  returns the empty mapping. For any other source the keys are exactly the base schema, in
  its order, followed by the opcode keys exactly when a non-empty bytecode is given, and
  every value is at least 0.
\<close>

theorem extract_features_schema:
  "\<exists>f. extract_features contract_code bytecode abi = Inr f \<and>
       map fst f =
         (if contract_code = [] then []
          else base_keys @ (if bytecode = None \<or> bytecode = Some [] then [] else opcode_keys)) \<and>
       list_all (\<lambda>(k, v). 0 \<le> num_val v) f"
proof (cases "contract_code = []")
  case True
  then show ?thesis by (simp add: extract_features_empty)
next
  case False
  define bp where "bp = (case bytecode of None \<Rightarrow> [] | Some b \<Rightarrow> if b = [] then [] else extract_bytecode_features b)"
  obtain avg where avg: "calculate_avg_function_length contract_code = Inr avg"
    and nn: "0 \<le> num_val avg"
    using avg_function_length_ok by blast
  have cc: "0 \<le> estimate_cyclomatic_complexity contract_code"
    using estimate_cyclomatic_complexity_pos [of contract_code] by simp
  have cm: "0 \<le> count_matches p contract_code" for p
    by (simp add: count_matches_def)
  from extract_features_shape [OF False, of bytecode abi] avg
  obtain b where f: "extract_features contract_code bytecode abi = Inr (b @ bp)"
    and keys: "map fst b = base_keys"
    and vals: "list_all (\<lambda>(k, v). 0 \<le> num_val v) b"
    unfolding bp_def [symmetric]
    using nn cc cm by (simp add: base_keys_def)
  have bk: "map fst bp = (if bytecode = None \<or> bytecode = Some [] then [] else opcode_keys)"
    by (auto simp: bp_def keys_bytecode_features split: option.splits)
  have bv: "list_all (\<lambda>(k, v). 0 \<le> num_val v) bp"
    by (auto simp: bp_def bytecode_features_nonneg split: option.splits)
  from f keys vals bk bv False show ?thesis by simp
qed

theorem extract_features_schema_witness:
  "(\<exists>f. extract_features sample_code (Some ''6080604052'') (None :: unit option) = Inr f \<and>
        map fst f = base_keys @ opcode_keys \<and> list_all (\<lambda>(k, v). 0 \<le> num_val v) f) \<and>
   (\<exists>f. extract_features sample_code None (None :: unit option) = Inr f \<and>
        map fst f = base_keys \<and> list_all (\<lambda>(k, v). 0 \<le> num_val v) f)"
proof -
  have ne: "sample_code \<noteq> []"
    by (simp add: sample_code_def)
  show ?thesis
    using extract_features_schema [of sample_code "Some ''6080604052''" "None :: unit option"]
      extract_features_schema [of sample_code None "None :: unit option"] ne
    by simp
qed

text \<open>
  The claim as stated fails at the empty source, where the guard at the top of
  \<open>extract_features\<close> returns a mapping with no key.
\<close>

theorem extract_features_empty_source:
  "\<not> (\<exists>f. extract_features [] None (None :: unit option) = Inr f \<and>
           set (map fst f) = set base_keys)"
  by (simp add: extract_features_empty base_keys_def)

lemma dict_get_append_left:
  "map_of d k = Some v \<Longrightarrow> dict_get (d @ e) k = Inr v"
  by (simp add: dict_get_def)

lemma example_counts:
  "count_matches pat_function example_source = 2"
  "count_matches pat_external_calls example_source = 0"
  "contains ''SafeMath'' example_source = False"
  by code_simp+

text \<open>
  Claim C7. On the example source, \<open>extract_features\<close> returns a mapping with
  \<open>function_count = 2\<close>, \<open>external_calls = 0\<close> and \<open>using_safe_math = 0\<close>.
\<close>

theorem extract_features_example:
  "\<exists>f. extract_features example_source None abi = Inr f \<and>
       dict_get f ''function_count'' = Inr (PInt 2) \<and>
       dict_get f ''external_calls'' = Inr (PInt 0) \<and>
       dict_get f ''using_safe_math'' = Inr (PInt 0)"
proof -
  have ne: "example_source \<noteq> []"
    by (simp add: example_source_def)
  from extract_features_shape [OF ne, of None abi]
  obtain f where f: "extract_features example_source None abi = Inr f"
    and fc: "dict_get f ''function_count'' = Inr (PInt (count_matches pat_function example_source))"
    and ec: "dict_get f ''external_calls'' = Inr (PInt (count_matches pat_external_calls example_source))"
    and sm: "dict_get f ''using_safe_math'' = Inr (PInt (if contains ''SafeMath'' example_source then 1 else 0))"
    by (auto simp: dict_get_def)
  then show ?thesis
    by (simp add: example_counts)
qed

text \<open>
  Claim C8. Whenever extraction returns a non-empty mapping, no division raised: the three
  ratios are the quotients by \<open>max(function_count, 1)\<close>, which is not zero, and with no
  function the ratio of external calls is the number of external calls itself.
\<close>

theorem extract_features_ratios:
  assumes "extract_features contract_code bytecode abi = Inr f" and "f \<noteq> []"
  shows "\<exists>fc ec rs cc.
           dict_get f ''function_count'' = Inr (PInt fc) \<and>
           dict_get f ''external_calls'' = Inr (PInt ec) \<and>
           dict_get f ''require_statements'' = Inr (PInt rs) \<and>
           dict_get f ''cyclomatic_complexity'' = Inr (PInt cc) \<and>
           max fc 1 \<noteq> 0 \<and>
           truediv ec (max fc 1) = Inr (of_int ec / of_int (max fc 1)) \<and>
           dict_get f ''external_calls_per_function'' = Inr (PFloat (of_int ec / of_int (max fc 1))) \<and>
           dict_get f ''require_per_function'' = Inr (PFloat (of_int rs / of_int (max fc 1))) \<and>
           dict_get f ''complexity_per_function'' = Inr (PFloat (of_int cc / of_int (max fc 1))) \<and>
           (fc = 0 \<longrightarrow> dict_get f ''external_calls_per_function'' = Inr (PFloat (of_int ec)))"
proof -
  have ne: "contract_code \<noteq> []"
    using assms by (auto simp: extract_features_def)
  define fc where "fc = count_matches pat_function contract_code"
  define ec where "ec = count_matches pat_external_calls contract_code"
  define rs where "rs = count_matches pat_require_check contract_code"
  define cc where "cc = estimate_cyclomatic_complexity contract_code"
  from extract_features_shape [OF ne, of bytecode abi] assms(1)
  have "dict_get f ''function_count'' = Inr (PInt fc)"
    and "dict_get f ''external_calls'' = Inr (PInt ec)"
    and "dict_get f ''require_statements'' = Inr (PInt rs)"
    and "dict_get f ''cyclomatic_complexity'' = Inr (PInt cc)"
    and "dict_get f ''external_calls_per_function'' = Inr (PFloat (of_int ec / of_int (max fc 1)))"
    and "dict_get f ''require_per_function'' = Inr (PFloat (of_int rs / of_int (max fc 1)))"
    and "dict_get f ''complexity_per_function'' = Inr (PFloat (of_int cc / of_int (max fc 1)))"
    unfolding fc_def ec_def rs_def cc_def
    by (auto simp: dict_get_def)
  moreover have "max fc 1 \<noteq> 0"
    by simp
  moreover have "truediv ec (max fc 1) = Inr (of_int ec / of_int (max fc 1))"
    by (simp add: truediv_def)
  moreover have "fc = 0 \<longrightarrow> (of_int ec / of_int (max fc 1) :: rat) = of_int ec"
    by simp
  ultimately show ?thesis
    by (intro exI [of _ fc] exI [of _ ec] exI [of _ rs] exI [of _ cc]) simp
qed

lemma call_source_counts:
  "count_matches pat_function call_source = 0"
  "count_matches pat_external_calls call_source = 1"
  by code_simp+

theorem extract_features_ratios_witness:
  "\<exists>f. extract_features call_source None (None :: unit option) = Inr f \<and> f \<noteq> [] \<and>
       dict_get f ''function_count'' = Inr (PInt 0) \<and>
       dict_get f ''external_calls'' = Inr (PInt 1) \<and>
       dict_get f ''external_calls_per_function'' = Inr (PFloat 1)"
proof -
  have ne: "call_source \<noteq> []"
    by (simp add: call_source_def)
  from extract_features_shape [OF ne, of None "None :: unit option"]
  obtain f where f: "extract_features call_source None (None :: unit option) = Inr f"
    and nf: "f \<noteq> []"
    and fc: "dict_get f ''function_count'' = Inr (PInt 0)"
    and ec: "dict_get f ''external_calls'' = Inr (PInt 1)"
    by (auto simp: dict_get_def call_source_counts)
  from extract_features_ratios [OF f nf] fc ec
  have "dict_get f ''external_calls_per_function'' = Inr (PFloat 1)"
    by auto
  with f nf fc ec show ?thesis by blast
qed

section \<open>The factor analysis\<close>

lemma dict_get_key: "dict_get f k = Inr v \<Longrightarrow> k \<in> fst ` set f"
  by (auto simp: dict_get_def split: option.splits dest!: map_of_SomeD intro: rev_image_eqI)

lemma check_threshold_factor:
  assumes "dict_get f name = Inr v"
    and "name \<noteq> ''reentrancy_protection''" and "name \<noteq> ''using_safe_math''"
  shows "\<exists>x. factor x = name \<and> factor_value x = v \<and>
           (\<forall>acc. check_risk_factor fr f (name, thr) acc =
                  Inr (acc @ opt (num_val v > of_int thr) x))"
  using assms dict_get_key [OF assms(1)]
  by (intro exI [of _ "\<lparr>factor = name,
                  description = ''Contract has unusual number of '' @
                    map (\<lambda>c. if c = CHR ''_'' then CHR '' '' else c) name @
                    '' ('' @ py_str fr v @ '')'',
                  factor_value = v\<rparr>"])
     (simp add: check_risk_factor_def and_then_def Let_def opt_def)

lemma check_reentrancy_factor:
  assumes "dict_get f ''reentrancy_protection'' = Inr rp"
    and "dict_get f ''external_calls'' = Inr ec"
  shows "\<exists>x. factor x = ''missing_reentrancy_protection'' \<and> factor_value x = ec \<and>
           (\<forall>acc. check_risk_factor fr f (''reentrancy_protection'', thr) acc =
                  Inr (acc @ opt (num_val rp = 0 \<and> num_val ec > 0) x))"
  using assms dict_get_key [OF assms(1)]
  by (intro exI [of _ "\<lparr>factor = ''missing_reentrancy_protection'',
                  description = ''Contract makes external calls but has no reentrancy protection'',
                  factor_value = ec\<rparr>"])
     (simp add: check_risk_factor_def and_then_def Let_def opt_def)

lemma check_safe_math_factor:
  assumes "dict_get f ''using_safe_math'' = Inr sm"
  shows "\<exists>x. factor x = ''missing_safe_math'' \<and> factor_value x = PInt 0 \<and>
           (\<forall>acc. check_risk_factor fr f (''using_safe_math'', thr) acc =
                  Inr (acc @ opt (num_val sm = 0) x))"
  using assms dict_get_key [OF assms(1)]
  by (intro exI [of _ "\<lparr>factor = ''missing_safe_math'',
                  description = ''Contract does not use SafeMath which may indicate vulnerability to overflow/underflow'',
                  factor_value = PInt 0\<rparr>"])
     (simp add: check_risk_factor_def and_then_def Let_def opt_def)

lemma risk_loop_normal_form:
  assumes "dict_get f ''selfdestruct_calls'' = Inr sd"
    and "dict_get f ''external_calls'' = Inr ec"
    and "dict_get f ''tx_origin_uses'' = Inr tx"
    and "dict_get f ''assembly_blocks'' = Inr ab"
    and "dict_get f ''reentrancy_protection'' = Inr rp"
    and "dict_get f ''using_safe_math'' = Inr sm"
  shows "\<exists>x1 x2 x3 x4 x5 x6.
     factor x1 = ''selfdestruct_calls'' \<and> factor x2 = ''external_calls'' \<and>
     factor x3 = ''tx_origin_uses'' \<and> factor x4 = ''assembly_blocks'' \<and>
     factor x5 = ''missing_reentrancy_protection'' \<and> factor_value x5 = ec \<and>
     factor x6 = ''missing_safe_math'' \<and>
     (\<forall>acc. risk_loop fr f risk_factors acc =
       Inr (acc @ opt (num_val sd > 0) x1 @ opt (num_val ec > 5) x2 @ opt (num_val tx > 0) x3 @
            opt (num_val ab > 3) x4 @ opt (num_val rp = 0 \<and> num_val ec > 0) x5 @
            opt (num_val sm = 0) x6))"
proof -
  obtain x1 where x1: "factor x1 = ''selfdestruct_calls''"
    and s1: "\<And>acc. check_risk_factor fr f (''selfdestruct_calls'', 0) acc = Inr (acc @ opt (num_val sd > 0) x1)"
    using check_threshold_factor [OF assms(1), of fr 0] by auto
  obtain x2 where x2: "factor x2 = ''external_calls''"
    and s2: "\<And>acc. check_risk_factor fr f (''external_calls'', 5) acc = Inr (acc @ opt (num_val ec > 5) x2)"
    using check_threshold_factor [OF assms(2), of fr 5] by auto
  obtain x3 where x3: "factor x3 = ''tx_origin_uses''"
    and s3: "\<And>acc. check_risk_factor fr f (''tx_origin_uses'', 0) acc = Inr (acc @ opt (num_val tx > 0) x3)"
    using check_threshold_factor [OF assms(3), of fr 0] by auto
  obtain x4 where x4: "factor x4 = ''assembly_blocks''"
    and s4: "\<And>acc. check_risk_factor fr f (''assembly_blocks'', 3) acc = Inr (acc @ opt (num_val ab > 3) x4)"
    using check_threshold_factor [OF assms(4), of fr 3] by auto
  obtain x5 where x5: "factor x5 = ''missing_reentrancy_protection''" "factor_value x5 = ec"
    and s5: "\<And>acc. check_risk_factor fr f (''reentrancy_protection'', 0) acc =
                Inr (acc @ opt (num_val rp = 0 \<and> num_val ec > 0) x5)"
    using check_reentrancy_factor [OF assms(5) assms(2), of fr 0] by auto
  obtain x6 where x6: "factor x6 = ''missing_safe_math''"
    and s6: "\<And>acc. check_risk_factor fr f (''using_safe_math'', 0) acc = Inr (acc @ opt (num_val sm = 0) x6)"
    using check_safe_math_factor [OF assms(6), of fr 0] by auto
  have "risk_loop fr f risk_factors acc =
       Inr (acc @ opt (num_val sd > 0) x1 @ opt (num_val ec > 5) x2 @ opt (num_val tx > 0) x3 @
            opt (num_val ab > 3) x4 @ opt (num_val rp = 0 \<and> num_val ec > 0) x5 @
            opt (num_val sm = 0) x6)" for acc
    unfolding risk_factors_def risk_loop.simps
    by (simp only: s1 s2 s3 s4 s5 s6 and_then_def sum.case append_assoc)
  with x1 x2 x3 x4 x5 x6 show ?thesis by blast
qed

lemma analyze_normal_form:
  assumes "dict_get f ''contract_size'' = Inr csize"
    and "dict_get f ''selfdestruct_calls'' = Inr sd"
    and "dict_get f ''external_calls'' = Inr ec"
    and "dict_get f ''tx_origin_uses'' = Inr tx"
    and "dict_get f ''assembly_blocks'' = Inr ab"
    and "dict_get f ''reentrancy_protection'' = Inr rp"
    and "dict_get f ''using_safe_math'' = Inr sm"
    and "dict_get f ''cyclomatic_complexity'' = Inr cc"
    and "dict_get f ''external_calls_per_function'' = Inr epf"
    and "dict_get f ''require_per_function'' = Inr rpf"
    and "dict_get f ''function_count'' = Inr fcount"
  shows "\<exists>x0 x1 x2 x3 x4 x5 x6 x7 x8 x9.
     map factor [x0, x1, x2, x3, x4, x5, x6, x7, x8, x9] = factor_keys \<and>
     factor_value x5 = ec \<and>
     analyze_anomaly_factors fr f =
       Inr (opt (num_val csize > 10000) x0 @
            opt (num_val sd > 0) x1 @ opt (num_val ec > 5) x2 @ opt (num_val tx > 0) x3 @
            opt (num_val ab > 3) x4 @ opt (num_val rp = 0 \<and> num_val ec > 0) x5 @
            opt (num_val sm = 0) x6 @ opt (num_val cc > 50) x7 @ opt (num_val epf > 2) x8 @
            opt (num_val rpf < 1 / 2 \<and> num_val fcount > 5) x9)"
proof -
  from risk_loop_normal_form [OF assms(2-7), of fr]
  obtain x1 x2 x3 x4 x5 x6 where k:
     "factor x1 = ''selfdestruct_calls''" "factor x2 = ''external_calls''"
     "factor x3 = ''tx_origin_uses''" "factor x4 = ''assembly_blocks''"
     "factor x5 = ''missing_reentrancy_protection''" "factor_value x5 = ec"
     "factor x6 = ''missing_safe_math''"
    and loop: "\<And>acc. risk_loop fr f risk_factors acc =
       Inr (acc @ opt (num_val sd > 0) x1 @ opt (num_val ec > 5) x2 @ opt (num_val tx > 0) x3 @
            opt (num_val ab > 3) x4 @ opt (num_val rp = 0 \<and> num_val ec > 0) x5 @
            opt (num_val sm = 0) x6)"
    by blast
  define x0 where "x0 = \<lparr>factor = ''large_contract_size'',
                     description = ''Contract is unusually large which may indicate complexity issues'',
                     factor_value = csize\<rparr>"
  define x7 where "x7 = \<lparr>factor = ''high_complexity'',
                     description = ''Contract has high cyclomatic complexity which may indicate maintainability issues'',
                     factor_value = cc\<rparr>"
  define x8 where "x8 = \<lparr>factor = ''high_external_calls_per_function'',
                     description = ''Contract has unusually high ratio of external calls per function'',
                     factor_value = epf\<rparr>"
  define x9 where "x9 = \<lparr>factor = ''low_require_checks'',
             description = ''Contract has low number of require checks per function which may indicate missing validation'',
             factor_value = rpf\<rparr>"
  have keys: "map factor [x0, x1, x2, x3, x4, x5, x6, x7, x8, x9] = factor_keys"
    by (simp add: k x0_def x7_def x8_def x9_def factor_keys_def)
  have "analyze_anomaly_factors fr f =
       Inr (opt (num_val csize > 10000) x0 @
            opt (num_val sd > 0) x1 @ opt (num_val ec > 5) x2 @ opt (num_val tx > 0) x3 @
            opt (num_val ab > 3) x4 @ opt (num_val rp = 0 \<and> num_val ec > 0) x5 @
            opt (num_val sm = 0) x6 @ opt (num_val cc > 50) x7 @ opt (num_val epf > 2) x8 @
            opt (num_val rpf < 1 / 2 \<and> num_val fcount > 5) x9)"
    unfolding analyze_anomaly_factors_def Let_def
    by (simp add: assms(1,8-11) loop and_then_def opt_def
          x0_def [symmetric] x7_def [symmetric] x8_def [symmetric] x9_def [symmetric])
  with keys k(6) show ?thesis by blast
qed

lemma extract_features_lookups:
  assumes "extract_features contract_code bytecode abi = Inr f" and "contract_code \<noteq> []"
  shows "\<exists>csize sd ec tx ab rp sm cc epf rpf fcount.
           dict_get f ''contract_size'' = Inr csize \<and>
           dict_get f ''selfdestruct_calls'' = Inr sd \<and>
           dict_get f ''external_calls'' = Inr ec \<and>
           dict_get f ''tx_origin_uses'' = Inr tx \<and>
           dict_get f ''assembly_blocks'' = Inr ab \<and>
           dict_get f ''reentrancy_protection'' = Inr rp \<and>
           dict_get f ''using_safe_math'' = Inr sm \<and>
           dict_get f ''cyclomatic_complexity'' = Inr cc \<and>
           dict_get f ''external_calls_per_function'' = Inr epf \<and>
           dict_get f ''require_per_function'' = Inr rpf \<and>
           dict_get f ''function_count'' = Inr fcount"
  using extract_features_shape [OF assms(2), of bytecode abi] assms(1)
  by (auto simp: dict_get_def)

lemma bex_opt: "(\<exists>x\<in>set (opt c y). P x) = (c \<and> P y)"
  by (simp add: opt_def)

lemma ball_opt: "(\<forall>x\<in>set (opt c y). P x) = (c \<longrightarrow> P y)"
  by (simp add: opt_def)

text \<open>
  Claim C6. On the features extracted from a non-empty source, the factor analysis returns
  a list that has a factor with the key \<open>missing_reentrancy_protection\<close> and the value
  \<open>features['external_calls']\<close> if and only if \<open>features['reentrancy_protection'] == 0\<close> and
  \<open>features['external_calls'] > 0\<close>; no factor with that key has another value.
\<close>

theorem missing_reentrancy_factor:
  assumes "extract_features contract_code bytecode abi = Inr f" and "contract_code \<noteq> []"
  shows "\<exists>facs rp ec.
           analyze_anomaly_factors fr f = Inr facs \<and>
           dict_get f ''reentrancy_protection'' = Inr rp \<and>
           dict_get f ''external_calls'' = Inr ec \<and>
           ((\<exists>x\<in>set facs. factor x = ''missing_reentrancy_protection'' \<and> factor_value x = ec)
             \<longleftrightarrow> (num_val rp = 0 \<and> 0 < num_val ec)) \<and>
           (\<forall>x\<in>set facs. factor x = ''missing_reentrancy_protection'' \<longrightarrow> factor_value x = ec)"
proof -
  from extract_features_lookups [OF assms]
  obtain csize sd ec tx ab rp sm cc epf rpf fcount where l:
    "dict_get f ''contract_size'' = Inr csize"
    "dict_get f ''selfdestruct_calls'' = Inr sd"
    "dict_get f ''external_calls'' = Inr ec"
    "dict_get f ''tx_origin_uses'' = Inr tx"
    "dict_get f ''assembly_blocks'' = Inr ab"
    "dict_get f ''reentrancy_protection'' = Inr rp"
    "dict_get f ''using_safe_math'' = Inr sm"
    "dict_get f ''cyclomatic_complexity'' = Inr cc"
    "dict_get f ''external_calls_per_function'' = Inr epf"
    "dict_get f ''require_per_function'' = Inr rpf"
    "dict_get f ''function_count'' = Inr fcount"
    by blast
  from analyze_normal_form [OF l, of fr]
  obtain x0 x1 x2 x3 x4 x5 x6 x7 x8 x9 where
    keys: "map factor [x0, x1, x2, x3, x4, x5, x6, x7, x8, x9] = factor_keys"
    and v5: "factor_value x5 = ec"
    and nf: "analyze_anomaly_factors fr f =
       Inr (opt (num_val csize > 10000) x0 @
            opt (num_val sd > 0) x1 @ opt (num_val ec > 5) x2 @ opt (num_val tx > 0) x3 @
            opt (num_val ab > 3) x4 @ opt (num_val rp = 0 \<and> num_val ec > 0) x5 @
            opt (num_val sm = 0) x6 @ opt (num_val cc > 50) x7 @ opt (num_val epf > 2) x8 @
            opt (num_val rpf < 1 / 2 \<and> num_val fcount > 5) x9)"
    by blast
  from keys have k: "factor x0 = ''large_contract_size''" "factor x1 = ''selfdestruct_calls''"
    "factor x2 = ''external_calls''" "factor x3 = ''tx_origin_uses''"
    "factor x4 = ''assembly_blocks''" "factor x5 = ''missing_reentrancy_protection''"
    "factor x6 = ''missing_safe_math''" "factor x7 = ''high_complexity''"
    "factor x8 = ''high_external_calls_per_function''" "factor x9 = ''low_require_checks''"
    by (simp_all add: factor_keys_def)
  define facs where "facs = opt (num_val csize > 10000) x0 @
            opt (num_val sd > 0) x1 @ opt (num_val ec > 5) x2 @ opt (num_val tx > 0) x3 @
            opt (num_val ab > 3) x4 @ opt (num_val rp = 0 \<and> num_val ec > 0) x5 @
            opt (num_val sm = 0) x6 @ opt (num_val cc > 50) x7 @ opt (num_val epf > 2) x8 @
            opt (num_val rpf < 1 / 2 \<and> num_val fcount > 5) x9"
  have a: "(\<exists>x\<in>set facs. factor x = ''missing_reentrancy_protection'' \<and> factor_value x = ec)
             \<longleftrightarrow> (num_val rp = 0 \<and> 0 < num_val ec)"
    unfolding facs_def by (simp add: bex_Un bex_opt k v5)
  have b: "\<forall>x\<in>set facs. factor x = ''missing_reentrancy_protection'' \<longrightarrow> factor_value x = ec"
    unfolding facs_def by (simp add: ball_Un ball_opt k v5)
  from nf a b l(3) l(6) show ?thesis
    unfolding facs_def [symmetric] by blast
qed


lemma call_source_guard: "count_matches pat_reentrancy_guard call_source = 0"
  by code_simp

theorem missing_reentrancy_factor_witness:
  "\<exists>f facs. extract_features call_source None (None :: unit option) = Inr f \<and>
            call_source \<noteq> [] \<and>
            analyze_anomaly_factors (\<lambda>q. []) f = Inr facs \<and>
            (\<exists>x\<in>set facs. factor x = ''missing_reentrancy_protection'' \<and>
                            factor_value x = PInt 1)"
proof -
  have ne: "call_source \<noteq> []"
    by (simp add: call_source_def)
  from extract_features_shape [OF ne, of None "None :: unit option"]
  obtain f where f: "extract_features call_source None (None :: unit option) = Inr f"
    and rp: "dict_get f ''reentrancy_protection'' = Inr (PInt 0)"
    and ec: "dict_get f ''external_calls'' = Inr (PInt 1)"
    by (auto simp: dict_get_def call_source_counts call_source_guard)
  from missing_reentrancy_factor [OF f ne, of "\<lambda>q. []"] rp ec
  obtain facs where "analyze_anomaly_factors (\<lambda>q. []) f = Inr facs"
    and "\<exists>x\<in>set facs. factor x = ''missing_reentrancy_protection'' \<and> factor_value x = PInt 1"
    by auto
  with f ne show ?thesis by blast
qed

lemma subseq_opt: "subseq (opt c x) [x]"
  by (simp add: opt_def)

lemma map_opt: "map g (opt c x) = opt c (g x)"
  by (simp add: opt_def)

lemma subseq_set: "subseq xs ys \<Longrightarrow> set xs \<subseteq> set ys"
  by (induction rule: list_emb.induct) auto

lemma subseq_distinct: "subseq xs ys \<Longrightarrow> distinct ys \<Longrightarrow> distinct xs"
proof (induction rule: list_emb.induct)
  case (list_emb_Cons2 x y xs ys)
  then show ?case using subseq_set [of xs ys] by auto
qed auto

lemma analyze_keys_subseq:
  assumes "extract_features contract_code bytecode abi = Inr f" and "contract_code \<noteq> []"
  shows "\<exists>facs. analyze_anomaly_factors fr f = Inr facs \<and> subseq (map factor facs) factor_keys"
proof -
  from extract_features_lookups [OF assms]
  obtain csize sd ec tx ab rp sm cc epf rpf fcount where l:
    "dict_get f ''contract_size'' = Inr csize"
    "dict_get f ''selfdestruct_calls'' = Inr sd"
    "dict_get f ''external_calls'' = Inr ec"
    "dict_get f ''tx_origin_uses'' = Inr tx"
    "dict_get f ''assembly_blocks'' = Inr ab"
    "dict_get f ''reentrancy_protection'' = Inr rp"
    "dict_get f ''using_safe_math'' = Inr sm"
    "dict_get f ''cyclomatic_complexity'' = Inr cc"
    "dict_get f ''external_calls_per_function'' = Inr epf"
    "dict_get f ''require_per_function'' = Inr rpf"
    "dict_get f ''function_count'' = Inr fcount"
    by blast
  from analyze_normal_form [OF l, of fr]
  obtain x0 x1 x2 x3 x4 x5 x6 x7 x8 x9 where
    keys: "map factor [x0, x1, x2, x3, x4, x5, x6, x7, x8, x9] = factor_keys"
    and nf: "analyze_anomaly_factors fr f =
       Inr (opt (num_val csize > 10000) x0 @
            opt (num_val sd > 0) x1 @ opt (num_val ec > 5) x2 @ opt (num_val tx > 0) x3 @
            opt (num_val ab > 3) x4 @ opt (num_val rp = 0 \<and> num_val ec > 0) x5 @
            opt (num_val sm = 0) x6 @ opt (num_val cc > 50) x7 @ opt (num_val epf > 2) x8 @
            opt (num_val rpf < 1 / 2 \<and> num_val fcount > 5) x9)"
    by blast
  have m: "subseq (opt c x @ xs) (x # ys)" if "subseq xs ys" for c and x :: string and xs ys
    using list_emb_append_mono [OF subseq_opt [of c x] that] by simp
  have "subseq (map factor (opt (num_val csize > 10000) x0 @
            opt (num_val sd > 0) x1 @ opt (num_val ec > 5) x2 @ opt (num_val tx > 0) x3 @
            opt (num_val ab > 3) x4 @ opt (num_val rp = 0 \<and> num_val ec > 0) x5 @
            opt (num_val sm = 0) x6 @ opt (num_val cc > 50) x7 @ opt (num_val epf > 2) x8 @
            opt (num_val rpf < 1 / 2 \<and> num_val fcount > 5) x9))
          (map factor [x0, x1, x2, x3, x4, x5, x6, x7, x8, x9])"
    unfolding map_append map_opt list.map
    by (intro m) (rule subseq_opt)
  with nf keys show ?thesis by simp
qed

section \<open>The recommendation text\<close>

lemma recommendation_lines_append:
  "list_all (\<lambda>x. recommendation_line (factor x) \<noteq> None) facs \<Longrightarrow>
   recommendation_lines facs recs = recs @ map (\<lambda>x. the (recommendation_line (factor x))) facs"
  by (induction facs arbitrary: recs) auto

lemma split_on_append:
  "sep \<notin> set l \<Longrightarrow> split_on sep (l @ sep # rest) = l # split_on sep rest"
  by (induction l) auto

lemma split_on_absent: "sep \<notin> set l \<Longrightarrow> split_on sep l = [l]"
  by (induction l) auto

lemma split_on_join:
  "ls \<noteq> [] \<Longrightarrow> list_all (\<lambda>l. sep \<notin> set l) ls \<Longrightarrow> split_on sep (join [sep] ls) = ls"
proof (induction "[sep]" ls rule: join.induct)
  case 1
  then show ?case by simp
next
  case (2 x)
  then show ?case by (simp add: split_on_absent)
next
  case (3 x y ys)
  then show ?case by (simp add: split_on_append)
qed

lemma recommendation_line_defined: "list_all (\<lambda>k. recommendation_line k \<noteq> None) factor_keys"
  by (simp add: factor_keys_def recommendation_line_def)


lemma distinct_factor_keys: "distinct factor_keys"
  by (simp add: factor_keys_def)

lemma distinct_remediation_lines: "distinct (recommendation_header # remediation_lines)"
  by code_simp

lemma remediation_lines_one_line:
  "list_all (\<lambda>l. newline \<notin> set l) (recommendation_header # remediation_lines)"
  by code_simp

lemma analyze_empty: "analyze_anomaly_factors fr [] = Inl (KeyError ''contract_size'')"
  by (simp add: analyze_anomaly_factors_def dict_get_def and_then_def)

lemma predict_anomaly_parts:
  assumes "predict lib d contract_code bytecode abi = Inr r" and "is_anomaly r"
  shows "\<exists>feats. extract_features contract_code bytecode abi = Inr feats \<and>
           analyze_anomaly_factors (float_repr lib) feats = Inr (anomaly_factors r) \<and>
           recommendation r = generate_recommendation (- 1) feats (anomaly_factors r)"
proof -
  obtain feats where f: "extract_features contract_code bytecode abi = Inr feats"
    using assms(1) by (cases "extract_features contract_code bytecode abi")
      (simp_all add: predict_def and_then_def)
  define X where "X = (case scaler_transform lib (scaler d) (data_frame [feats]) of
                         Inl e \<Rightarrow> rows (data_frame [feats]) | Inr Y \<Rightarrow> Y)"
  have sr: "score_and_report lib (model d) feats X = Inr r"
    using assms(1) f by (simp add: predict_def and_then_def Let_def X_def)
  then show ?thesis
    using assms(2) f
    by (auto simp: score_and_report_def and_then_def split: sum.splits if_splits)
qed

text \<open>
  Claim C9. In every result of \<open>predict\<close> that is an anomaly, no factor key occurs twice, every
  factor has a remediation line, and the lines of the recommendation text are the header
  followed by the line of each factor, in order, with no line twice.
\<close>

theorem anomaly_report_lines:
  assumes "predict lib d contract_code bytecode abi = Inr r" and "is_anomaly r"
  shows "distinct (map factor (anomaly_factors r)) \<and>
         list_all (\<lambda>x. recommendation_line (factor x) \<noteq> None) (anomaly_factors r) \<and>
         split_on newline (recommendation r) =
           recommendation_header #
           map (\<lambda>x. the (recommendation_line (factor x))) (anomaly_factors r) \<and>
         distinct (split_on newline (recommendation r))"
proof -
  from predict_anomaly_parts [OF assms]
  obtain feats where f: "extract_features contract_code bytecode abi = Inr feats"
    and a: "analyze_anomaly_factors (float_repr lib) feats = Inr (anomaly_factors r)"
    and rec: "recommendation r = generate_recommendation (- 1) feats (anomaly_factors r)"
    by blast
  have ne: "contract_code \<noteq> []"
  proof
    assume "contract_code = []"
    with f have "feats = []" by (simp add: extract_features_def)
    with a show False by (simp add: analyze_empty)
  qed
  define facs where "facs = anomaly_factors r"
  from analyze_keys_subseq [OF f ne, of "float_repr lib"] a
  have sub: "subseq (map factor facs) factor_keys"
    by (simp add: facs_def)
  have d: "distinct (map factor facs)"
    using subseq_distinct [OF sub distinct_factor_keys] .
  have "set (map factor facs) \<subseteq> set factor_keys"
    using subseq_set [OF sub] .
  with recommendation_line_defined
  have def: "list_all (\<lambda>x. recommendation_line (factor x) \<noteq> None) facs"
    by (auto simp: list_all_iff)
  define ls where "ls = recommendation_header # map (\<lambda>x. the (recommendation_line (factor x))) facs"
  have "subseq (map (\<lambda>k. the (recommendation_line k)) (map factor facs)) remediation_lines"
    unfolding remediation_lines_def by (rule subseq_map [OF sub])
  then have sl: "subseq ls (recommendation_header # remediation_lines)"
    by (simp add: ls_def comp_def)
  have dl: "distinct ls"
    using subseq_distinct [OF sl distinct_remediation_lines] .
  have nl: "list_all (\<lambda>l. newline \<notin> set l) ls"
    using subseq_set [OF sl] remediation_lines_one_line
    by (auto simp: list_all_iff)
  have "recommendation r = join [newline] ls"
    using rec recommendation_lines_append [OF def, of "[recommendation_header]"]
    by (simp add: generate_recommendation_def ls_def facs_def)
  moreover have "split_on newline (join [newline] ls) = ls"
    by (rule split_on_join [OF _ nl]) (simp add: ls_def)
  ultimately have "split_on newline (recommendation r) = ls"
    by simp
  with d def dl show ?thesis
    by (simp add: ls_def facs_def)
qed

section \<open>Risk level\<close>

lemma length_filter_pos: "(0 < length (filter P xs)) = (\<exists>x\<in>set xs. P x)"
  by (induction xs) auto

text \<open>
  Claim C5. The risk level of a result is \<open>Low\<close> when it is not an anomaly; otherwise \<open>High\<close>
  when some factor has the key \<open>selfdestruct_calls\<close>, \<open>tx_origin_uses\<close> or
  \<open>missing_reentrancy_protection\<close>, or the score is below \<open>-0.8\<close>; otherwise \<open>Medium\<close> when the
  score is below \<open>-0.6\<close>; otherwise \<open>Low-Medium\<close>.
\<close>

theorem determine_risk_level_cases:
  "determine_risk_level result =
     (if \<not> is_anomaly result then ''Low''
      else if (\<exists>f\<in>set (anomaly_factors result).
                 factor f = ''selfdestruct_calls'' \<or> factor f = ''tx_origin_uses'' \<or>
                 factor f = ''missing_reentrancy_protection'')
              \<or> anomaly_score result < float_neg_0_8 then ''High''
      else if anomaly_score result < float_neg_0_6 then ''Medium''
      else ''Low-Medium'')"
  unfolding determine_risk_level_def Let_def length_filter_pos
  by simp

theorem determine_risk_level_cases_witness:
  "determine_risk_level
     \<lparr>is_anomaly = True, anomaly_score = - (7 / 10), result_features = [],
      anomaly_factors = [\<lparr>factor = ''missing_safe_math'', description = [], factor_value = PInt 0\<rparr>],
      threshold = threshold_score, recommendation = []\<rparr> = ''Medium'' \<and>
   determine_risk_level
     \<lparr>is_anomaly = True, anomaly_score = - (1 / 4), result_features = [],
      anomaly_factors = [\<lparr>factor = ''tx_origin_uses'', description = [], factor_value = PInt 1\<rparr>],
      threshold = threshold_score, recommendation = []\<rparr> = ''High''"
  by (simp add: determine_risk_level_cases float_neg_0_8_def float_neg_0_6_def)

section \<open>Saving the model\<close>

lemma replace_from_absent:
  "old \<noteq> [] \<Longrightarrow> \<not> contains old s \<Longrightarrow> replace_from old new s = s"
proof (induction s)
  case Nil
  then show ?case by (subst replace_from.simps) simp
next
  case (Cons c cs)
  then have "\<not> startswith old (c # cs)" and "replace_from old new cs = cs"
    by simp_all
  with Cons.prems(1) show ?case
    by (subst replace_from.simps) simp
qed

text \<open>
  Claim C10. For a path that does not contain \<open>.pkl\<close>, the scaler path is the model path:
  \<open>save_model\<close> dumps the model there and then the scaler to the same path, and a load from
  the path gives the scaler, where a load after the first dump alone gave the model.
\<close>

theorem save_model_same_path:
  assumes "\<not> contains ''.pkl'' model_path"
  shows "replace_from ''.pkl'' ''_scaler.pkl'' model_path = model_path \<and>
         save_model d model_path fs =
           joblib_dump (ScalerBlob (scaler d)) model_path
             (joblib_dump (ModelBlob (model d)) model_path fs) \<and>
         joblib_load (joblib_dump (ModelBlob (model d)) model_path fs) model_path =
           Some (ModelBlob (model d)) \<and>
         joblib_load (save_model d model_path fs) model_path = Some (ScalerBlob (scaler d))"
proof -
  have "replace_from ''.pkl'' ''_scaler.pkl'' model_path = model_path"
    using assms by (intro replace_from_absent) simp_all
  then show ?thesis
    by (simp add: save_model_def Let_def joblib_dump_def joblib_load_def)
qed

theorem save_model_same_path_witness:
  "\<not> contains ''.pkl'' ''models/anomaly_model'' \<and>
   joblib_load (save_model fresh_detector ''models/anomaly_model'' Map.empty)
     ''models/anomaly_model'' = Some (ScalerBlob Scaler_unfitted) \<and>
   joblib_load (save_model fresh_detector ''models/anomaly_model.pkl'' Map.empty)
     ''models/anomaly_model.pkl'' = Some (ModelBlob Model_unfitted)"
proof -
  have a: "\<not> contains ''.pkl'' ''models/anomaly_model''"
    by code_simp
  have b: "replace_from ''.pkl'' ''_scaler.pkl'' ''models/anomaly_model.pkl'' =
           ''models/anomaly_model_scaler.pkl''"
    by code_simp
  show ?thesis
    using a save_model_same_path [OF a, of fresh_detector Map.empty]
    by (simp add: fresh_detector_def save_model_def Let_def b joblib_dump_def joblib_load_def)
qed

end
